theory Spec2Isabelle
  imports Complex_Main "HOL-Library.AList"
begin

section \<open>The virtual keyboard of \<^verbatim>\<open>src/index.ts\<close>\<close>

text \<open>
  The development embeds the class \<^verbatim>\<open>VirtualKeyBoard\<close> of \<^verbatim>\<open>src/index.ts\<close> (the
  compiled \<^verbatim>\<open>index.js\<close> has the same statements). Conventions of the embedding:
  \<^item> a JavaScript \<^verbatim>\<open>number\<close> is \<open>NaN\<close> or a finite value \<open>Num x\<close> with \<open>x\<close> a real;
    arithmetic follows JavaScript on \<open>NaN\<close>, and rounding and the infinities of IEEE
    doubles are outside the model. A voice is an integer: the counter starts at 0 and
    only \<^verbatim>\<open>++\<close> and \<^verbatim>\<open>= 0\<close> change it;
  \<^item> a string is a \<open>string\<close> whose characters are the UTF-16 code units below 256;
    \<^verbatim>\<open>toLowerCase\<close> is modelled on these (code units above, such as U+212A that
    lowercases to \<^verbatim>\<open>k\<close>, have no model value);
  \<^item> the two lookup tables and \<^verbatim>\<open>heldKeys\<close> are plain objects: a read \<^verbatim>\<open>obj[key]\<close>
    finds an own property, or else a property inherited from \<^verbatim>\<open>Object.prototype\<close>;
  \<^item> the own properties of \<^verbatim>\<open>heldKeys\<close> are an association list in insertion order;
  \<^item> a callback is known by its identity only, a natural number; a call of a callback
    returns, and what the callback does is outside the model;
  \<^item> a method that mutates \<^verbatim>\<open>this\<close> takes the state and returns the new one;
    the \<^verbatim>\<open>TypeError\<close> of reading a property of \<^verbatim>\<open>undefined\<close> is a value.
\<close>

subsection \<open>Numbers\<close>

datatype 'a number = NaN | Num 'a

text \<open>\<^verbatim>\<open>x + n\<close> and \<^verbatim>\<open>x - n\<close> for a literal \<open>n\<close>.\<close>

definition plus_number :: "real number \<Rightarrow> real \<Rightarrow> real number" where
  "plus_number x n = (case x of NaN \<Rightarrow> NaN | Num a \<Rightarrow> Num (a + n))"

definition minus_number :: "real number \<Rightarrow> real \<Rightarrow> real number" where
  "minus_number x n = (case x of NaN \<Rightarrow> NaN | Num a \<Rightarrow> Num (a - n))"

text \<open>\<^verbatim>\<open>Math.max\<close> and \<^verbatim>\<open>Math.min\<close> of two numbers return \<open>NaN\<close> when either is \<open>NaN\<close>.\<close>

definition Math_max :: "real number \<Rightarrow> real number \<Rightarrow> real number" where
  "Math_max a b = (case a of NaN \<Rightarrow> NaN | Num x \<Rightarrow> (case b of NaN \<Rightarrow> NaN | Num y \<Rightarrow> Num (max x y)))"

definition Math_min :: "real number \<Rightarrow> real number \<Rightarrow> real number" where
  "Math_min a b = (case a of NaN \<Rightarrow> NaN | Num x \<Rightarrow> (case b of NaN \<Rightarrow> NaN | Num y \<Rightarrow> Num (min x y)))"

text \<open>
  \<^verbatim>\<open>Math.pow(base, exponent)\<close> for a positive base: the real power \<open>base powr x\<close>,
  written with the integer power where the exponent is an integer, which is the same
  number (lemma \<open>Math_pow_powr\<close> below) and can be evaluated. Then the product
  \<^verbatim>\<open>a * b\<close>.
\<close>

definition Math_pow :: "real \<Rightarrow> real number \<Rightarrow> real number" where
  "Math_pow base exponent =
     (case exponent of
        NaN \<Rightarrow> NaN
      | Num x \<Rightarrow> Num (if x = of_int \<lfloor>x\<rfloor> then base powi \<lfloor>x\<rfloor> else base powr x))"

definition times_number :: "real number \<Rightarrow> real number \<Rightarrow> real number" where
  "times_number a b = (case a of NaN \<Rightarrow> NaN | Num x \<Rightarrow> (case b of NaN \<Rightarrow> NaN | Num y \<Rightarrow> Num (x * y)))"

text \<open>
  The conversion that \<^verbatim>\<open>*\<close> applies to its operand: \<^verbatim>\<open>undefined\<close> (here \<open>None\<close>)
  becomes \<open>NaN\<close>.
\<close>

definition ToNumber :: "real option \<Rightarrow> real number" where
  "ToNumber v = (case v of None \<Rightarrow> NaN | Some x \<Rightarrow> Num x)"

text \<open>Whether a number lies in a closed range; \<open>NaN\<close> lies in none.\<close>

definition in_range :: "real \<Rightarrow> real \<Rightarrow> real number \<Rightarrow> bool" where
  "in_range lo hi x = (case x of NaN \<Rightarrow> False | Num a \<Rightarrow> lo \<le> a \<and> a \<le> hi)"

subsection \<open>Plain objects\<close>

text \<open>
  The names of the properties that every plain object inherits from
  \<^verbatim>\<open>Object.prototype\<close>. Each of them holds a function, but \<^verbatim>\<open>__proto__\<close>, an accessor
  that returns \<^verbatim>\<open>Object.prototype\<close> itself; all these values are truthy, their
  \<^verbatim>\<open>typeof\<close> is not \<^verbatim>\<open>'undefined'\<close>, and none of them has a property \<^verbatim>\<open>freq\<close>.
\<close>

definition Object_prototype :: "string list" where
  "Object_prototype =
     [''constructor'', ''__defineGetter__'', ''__defineSetter__'', ''hasOwnProperty'',
      ''__lookupGetter__'', ''__lookupSetter__'', ''isPrototypeOf'',
      ''propertyIsEnumerable'', ''toString'', ''valueOf'', ''__proto__'',
      ''toLocaleString'']"

text \<open>
  What a read \<^verbatim>\<open>obj[key]\<close> gives when it is not \<^verbatim>\<open>undefined\<close>: the value of an own
  property, or the inherited property of \<^verbatim>\<open>Object.prototype\<close> of that name.
\<close>

datatype 'a property_value = Val 'a | Inherited string

text \<open>\<^verbatim>\<open>obj[key]\<close> for a plain object with the own properties \<open>obj\<close>; \<open>None\<close> is \<^verbatim>\<open>undefined\<close>.\<close>

definition get :: "(string \<rightharpoonup> 'a) \<Rightarrow> string \<Rightarrow> 'a property_value option" where
  "get obj k =
     (case obj k of
        Some v \<Rightarrow> Some (Val v)
      | None \<Rightarrow> if k \<in> set Object_prototype then Some (Inherited k) else None)"

text \<open>
  \<^verbatim>\<open>obj[key] = v\<close> for a number \<open>v\<close>: the object gets or updates an own property, except
  under the key \<^verbatim>\<open>__proto__\<close>, where the inherited setter runs and ignores a value
  that is not an object.
\<close>

definition put :: "(string \<times> 'a) list \<Rightarrow> string \<Rightarrow> 'a \<Rightarrow> (string \<times> 'a) list" where
  "put obj k v = (if k = ''__proto__'' then obj else AList.update k v obj)"

subsection \<open>Data\<close>

text \<open>An entry of \<^verbatim>\<open>keyToNoteMap\<close>, \<^verbatim>\<open>{ note: 'C', freq: 16.35 }\<close>.\<close>

record INote =
  note_name :: string
  note_freq :: real

text \<open>The type \<^verbatim>\<open>string | number | boolean\<close> of the field \<^verbatim>\<open>state\<close>.\<close>

datatype StateValue = StateString string | StateNumber "real number" | StateBool bool

text \<open>
  \<^verbatim>\<open>IActionData\<close>: every field is optional; \<open>None\<close> is an absent property. In the
  source the field \<^verbatim>\<open>note\<close> receives what \<^verbatim>\<open>keyToNoteMap[key]\<close> gave and, on a
  release, the field \<^verbatim>\<open>voice\<close> what \<^verbatim>\<open>heldKeys[key]\<close> gave.
\<close>

record IActionData =
  data_note :: "INote property_value option"
  data_freq :: "real number option"
  data_voice :: "int property_value option"
  data_state :: "StateValue option"
  data_command :: "string option"

record INoteData =
  action :: string
  data :: IActionData

text \<open>The two properties of a \<^verbatim>\<open>KeyboardEvent\<close> that the handler reads.\<close>

record KeyboardEvent =
  key :: string
  type :: string

type_synonym callback = nat

record VirtualKeyBoard =
  octave :: "real number"
  velocity :: "real number"
  holdMode :: bool
  heldKeys :: "(string \<times> int) list"
  subscribers :: "callback list"
  activeVoices :: int

datatype error = TypeError

subsection \<open>Helpers and tables\<close>

definition limitTo :: "real number \<Rightarrow> real number \<Rightarrow> real number \<Rightarrow> real number" where
  "limitTo num min' max' = Math_min (Math_max num min') max'"

text \<open>The own properties of the two tables.\<close>

definition keyToNoteMap :: "string \<rightharpoonup> INote" where
  "keyToNoteMap = map_of
     [(''a'', \<lparr>note_name = ''C'', note_freq = 16.35\<rparr>),
      (''w'', \<lparr>note_name = ''C#'', note_freq = 17.32\<rparr>),
      (''s'', \<lparr>note_name = ''D'', note_freq = 18.35\<rparr>),
      (''e'', \<lparr>note_name = ''D#'', note_freq = 19.45\<rparr>),
      (''d'', \<lparr>note_name = ''E'', note_freq = 20.60\<rparr>),
      (''f'', \<lparr>note_name = ''F'', note_freq = 21.83\<rparr>),
      (''t'', \<lparr>note_name = ''F#'', note_freq = 23.12\<rparr>),
      (''g'', \<lparr>note_name = ''G'', note_freq = 24.50\<rparr>),
      (''y'', \<lparr>note_name = ''G#'', note_freq = 25.96\<rparr>),
      (''h'', \<lparr>note_name = ''A'', note_freq = 27.50\<rparr>),
      (''u'', \<lparr>note_name = ''A#'', note_freq = 29.14\<rparr>),
      (''j'', \<lparr>note_name = ''B'', note_freq = 30.87\<rparr>),
      (''k'', \<lparr>note_name = ''C'', note_freq = 32.70\<rparr>),
      (''o'', \<lparr>note_name = ''C#'', note_freq = 34.65\<rparr>),
      (''l'', \<lparr>note_name = ''D'', note_freq = 36.71\<rparr>),
      (''p'', \<lparr>note_name = ''D#'', note_freq = 38.89\<rparr>)]"

definition keyToCommandsMap :: "string \<rightharpoonup> string" where
  "keyToCommandsMap = map_of
     [(''z'', ''octave-down''),
      (''x'', ''octave-up''),
      (''c'', ''velocity-down''),
      (''v'', ''velocity-up''),
      (''b'', ''hold-mode'')]"

text \<open>
  \<^verbatim>\<open>toLowerCase\<close> on code units below 256: the letters \<^verbatim>\<open>A\<close> to \<^verbatim>\<open>Z\<close> and U+00C0 to
  U+00DE but the multiplication sign U+00D7 move up by 32.
\<close>

definition toLowerCase :: "string \<Rightarrow> string" where
  "toLowerCase str =
     map (\<lambda>c. let n = (of_char c :: nat) in
               if (65 \<le> n \<and> n \<le> 90) \<or> (192 \<le> n \<and> n \<le> 222 \<and> n \<noteq> 215)
               then char_of (n + 32) else c) str"

subsection \<open>Construction and subscription\<close>

text \<open>
  \<^verbatim>\<open>constructor (octave = 1, velocity = 100)\<close>: an argument left out is \<open>None\<close>, and a
  given one is stored as it is. The call of \<^verbatim>\<open>activate\<close> attaches the handler to the
  window and changes no field.
\<close>

definition constructor :: "real number option \<Rightarrow> real number option \<Rightarrow> VirtualKeyBoard" where
  "constructor octave' velocity' =
     \<lparr>octave = (case octave' of None \<Rightarrow> Num 1 | Some v \<Rightarrow> v),
      velocity = (case velocity' of None \<Rightarrow> Num 100 | Some v \<Rightarrow> v),
      holdMode = False,
      heldKeys = [],
      subscribers = [],
      activeVoices = 0\<rparr>"

text \<open>\<^verbatim>\<open>Array.prototype.indexOf\<close>: the first index of the element, or \<open>-1\<close>.\<close>

fun indexOf :: "'a list \<Rightarrow> 'a \<Rightarrow> int" where
  "indexOf [] x = - 1"
| "indexOf (y # ys) x =
     (if y = x then 0
      else (let i = indexOf ys x in if i < 0 then - 1 else i + 1))"

text \<open>
  \<^verbatim>\<open>xs.splice(start, deleteCount)\<close> for \<open>0 \<le> start\<close>, the only way the source calls
  it: the list without \<open>deleteCount\<close> elements from index \<open>start\<close> on.
\<close>

definition splice :: "'a list \<Rightarrow> int \<Rightarrow> nat \<Rightarrow> 'a list" where
  "splice xs start deleteCount = take (nat start) xs @ drop (nat start + deleteCount) xs"

definition subscribe :: "callback \<Rightarrow> VirtualKeyBoard \<Rightarrow> VirtualKeyBoard" where
  "subscribe cb s =
     (if \<not> (indexOf (subscribers s) cb < 0) then s
      else s\<lparr>subscribers := subscribers s @ [cb]\<rparr>)"

definition unsubscribe :: "callback \<Rightarrow> VirtualKeyBoard \<Rightarrow> VirtualKeyBoard" where
  "unsubscribe cb s =
     (let position = indexOf (subscribers s) cb in
      if position < 0 then s
      else s\<lparr>subscribers := splice (subscribers s) position 1\<rparr>)"

text \<open>
  \<^verbatim>\<open>emit\<close> calls every subscriber with the data, in the order of the list, and returns
  the data: the calls made, as pairs of callback and argument, and the value returned.
\<close>

definition emit :: "INoteData \<Rightarrow> VirtualKeyBoard \<Rightarrow> (callback \<times> INoteData) list \<times> INoteData" where
  "emit d s = (map (\<lambda>f. (f, d)) (subscribers s), d)"

text \<open>
  \<^verbatim>\<open>freqCorrection(freq)\<close>, whose argument is a number or, when the note that was
  looked up has no property \<^verbatim>\<open>freq\<close>, \<^verbatim>\<open>undefined\<close>.
\<close>

definition freqCorrection :: "real option \<Rightarrow> VirtualKeyBoard \<Rightarrow> real number" where
  "freqCorrection freq s = times_number (ToNumber freq) (Math_pow 2 (octave s))"

subsection \<open>The key handler\<close>

text \<open>
  \<^verbatim>\<open>note.freq\<close> for a note that is defined: the frequency of a table entry, and
  \<^verbatim>\<open>undefined\<close> for an inherited value.
\<close>

definition freq_of :: "INote property_value \<Rightarrow> real option" where
  "freq_of note' = (case note' of Val n \<Rightarrow> Some (note_freq n) | Inherited name \<Rightarrow> None)"

text \<open>
  The handler's result lists the arguments of its calls of \<^verbatim>\<open>emit\<close>, in order; \<open>emit\<close>
  above says what one such call delivers. The three blocks of \<^verbatim>\<open>keyHandler\<close> are
  written as three functions of the lowercased key.

  The note block of a \<^verbatim>\<open>keydown\<close>. Every value that the read of the table can give is
  truthy, so \<^verbatim>\<open>note &&\<close> asks whether the read is defined; \<^verbatim>\<open>hasOwnProperty\<close> asks for
  an own property of \<^verbatim>\<open>heldKeys\<close>.
\<close>

definition keydown_note :: "string \<Rightarrow> VirtualKeyBoard \<Rightarrow> VirtualKeyBoard \<times> INoteData list" where
  "keydown_note k s =
     (let doTrigger = (map_of (heldKeys s) k = None \<or> holdMode s) in
      case get keyToNoteMap k of
        None \<Rightarrow> (s, [])
      | Some note' \<Rightarrow>
          if doTrigger then
            (let voice = activeVoices s;
                 s1 = s\<lparr>activeVoices := activeVoices s + 1\<rparr>;
                 s2 = s1\<lparr>heldKeys := put (heldKeys s1) k voice\<rparr>;
                 d = \<lparr>data_note = Some note',
                      data_freq = Some (freqCorrection (freq_of note') s2),
                      data_voice = Some (Val voice),
                      data_state = Some (StateString ''on''),
                      data_command = None\<rparr>
             in (s2, [\<lparr>action = ''date'', data = d\<rparr>]))
          else (s, []))"

text \<open>
  The command block of a \<^verbatim>\<open>keydown\<close>. A non-empty string and every inherited value
  are truthy; \<^verbatim>\<open>data\<close> starts as the empty object, which a command that matches no
  \<^verbatim>\<open>case\<close> of the \<^verbatim>\<open>switch\<close> leaves in place, and an object is truthy, so the guard
  \<^verbatim>\<open>if (data)\<close> always passes.
\<close>

definition no_data :: IActionData where
  "no_data = \<lparr>data_note = None, data_freq = None, data_voice = None,
              data_state = None, data_command = None\<rparr>"

definition keydown_command :: "string \<Rightarrow> VirtualKeyBoard \<Rightarrow> VirtualKeyBoard \<times> INoteData list" where
  "keydown_command k s =
     (case get keyToCommandsMap k of
        None \<Rightarrow> (s, [])
      | Some (Inherited name) \<Rightarrow> (s, [\<lparr>action = ''settings'', data = no_data\<rparr>])
      | Some (Val command) \<Rightarrow>
          if command = [] then (s, [])
          else
            (let (s', d) =
               (if command = ''octave-up'' then
                  (let s1 = s\<lparr>octave := limitTo (plus_number (octave s) 1) (Num (- 8)) (Num 8)\<rparr>
                   in (s1, no_data\<lparr>data_command := Some command,
                                   data_state := Some (StateNumber (octave s1))\<rparr>))
                else if command = ''octave-down'' then
                  (let s1 = s\<lparr>octave := limitTo (minus_number (octave s) 1) (Num (- 8)) (Num 8)\<rparr>
                   in (s1, no_data\<lparr>data_command := Some command,
                                   data_state := Some (StateNumber (octave s1))\<rparr>))
                else if command = ''velocity-up'' then
                  (let s1 = s\<lparr>velocity := limitTo (plus_number (velocity s) 5) (Num 0) (Num 127)\<rparr>
                   in (s1, no_data\<lparr>data_command := Some command,
                                   data_state := Some (StateNumber (velocity s1))\<rparr>))
                else if command = ''velocity-down'' then
                  (let s1 = s\<lparr>velocity := limitTo (minus_number (velocity s) 5) (Num 0) (Num 127)\<rparr>
                   in (s1, no_data\<lparr>data_command := Some command,
                                   data_state := Some (StateNumber (velocity s1))\<rparr>))
                else if command = ''hold-mode'' then
                  (let s1 = s\<lparr>holdMode := \<not> holdMode s\<rparr>
                   in (s1, no_data\<lparr>data_command := Some command,
                                   data_state := Some (StateBool (holdMode s1))\<rparr>))
                else (s, no_data))
             in (s', [\<lparr>action = ''settings'', data = d\<rparr>])))"

text \<open>
  The \<^verbatim>\<open>keyup\<close> block. \<^verbatim>\<open>heldKey\<close> is read through the prototype, so it is defined
  for an inherited name as well; \<^verbatim>\<open>delete\<close> removes an own property only. The entry
  is deleted before \<^verbatim>\<open>note.freq\<close> is read, so a \<^verbatim>\<open>TypeError\<close> leaves the state with
  the entry gone and the counter not reset.
\<close>

definition reset_voices :: "VirtualKeyBoard \<Rightarrow> VirtualKeyBoard" where
  "reset_voices s =
     (if length (map fst (heldKeys s)) = 0 then s\<lparr>activeVoices := 0\<rparr> else s)"

definition keyup ::
  "string \<Rightarrow> VirtualKeyBoard \<Rightarrow> (error \<times> VirtualKeyBoard) + (VirtualKeyBoard \<times> INoteData list)" where
  "keyup k s =
     (case get (map_of (heldKeys s)) k of
        None \<Rightarrow> Inr (reset_voices s, [])
      | Some heldKey \<Rightarrow>
          if \<not> holdMode s then
            (let s1 = s\<lparr>heldKeys := AList.delete k (heldKeys s)\<rparr> in
             case get keyToNoteMap k of
               None \<Rightarrow> Inl (TypeError, s1)
             | Some note' \<Rightarrow>
                 (let d = \<lparr>data_note = Some note',
                           data_freq = Some (freqCorrection (freq_of note') s1),
                           data_voice = Some heldKey,
                           data_state = Some (StateString ''off''),
                           data_command = None\<rparr>
                  in Inr (reset_voices s1, [\<lparr>action = ''gate'', data = d\<rparr>])))
          else Inr (reset_voices s, []))"

definition keyHandler ::
  "KeyboardEvent \<Rightarrow> VirtualKeyBoard \<Rightarrow> (error \<times> VirtualKeyBoard) + (VirtualKeyBoard \<times> INoteData list)" where
  "keyHandler event s =
     (let k = toLowerCase (key event);
          (s1, out1) =
            (if type event = ''keydown'' then
               (let (sa, oa) = keydown_note k s;
                    (sb, ob) = keydown_command k sa
                in (sb, oa @ ob))
             else (s, []))
      in if type event = ''keyup'' then
           (case keyup k s1 of
              Inl err \<Rightarrow> Inl err
            | Inr (s2, out2) \<Rightarrow> Inr (s2, out1 @ out2))
         else Inr (s1, out1))"

text \<open>The state a call leaves behind, whether it returned or threw, and what it emitted.\<close>

fun state_of :: "(error \<times> VirtualKeyBoard) + (VirtualKeyBoard \<times> INoteData list) \<Rightarrow> VirtualKeyBoard" where
  "state_of (Inl (err, s)) = s"
| "state_of (Inr (s, out)) = s"

fun emitted :: "(error \<times> VirtualKeyBoard) + (VirtualKeyBoard \<times> INoteData list) \<Rightarrow> INoteData list" where
  "emitted (Inl (err, s)) = []"
| "emitted (Inr (s, out)) = out"

text \<open>
  A sequence of key events, one call of the handler each: the final state and all the
  events emitted on the way.
\<close>

fun run :: "KeyboardEvent list \<Rightarrow> VirtualKeyBoard \<Rightarrow> VirtualKeyBoard \<times> INoteData list" where
  "run [] s = (s, [])"
| "run (e # es) s =
     (let r = keyHandler e s; (s', out) = run es (state_of r)
      in (s', emitted r @ out))"

text \<open>
  The states an interpreter can be in: constructed, then changed by calls of the handler,
  \<^verbatim>\<open>subscribe\<close> and \<^verbatim>\<open>unsubscribe\<close> only.
\<close>

inductive reachable :: "VirtualKeyBoard \<Rightarrow> bool" where
  init: "reachable (constructor octave' velocity')"
| handled: "reachable s \<Longrightarrow> reachable (state_of (keyHandler event s))"
| subscribed: "reachable s \<Longrightarrow> reachable (subscribe cb s)"
| unsubscribed: "reachable s \<Longrightarrow> reachable (unsubscribe cb s)"

subsection \<open>Vocabulary of the properties\<close>

text \<open>A press and a release of the key with identity \<open>c\<close>, as the window delivers them.\<close>

definition press :: "string \<Rightarrow> KeyboardEvent" where
  "press c = \<lparr>key = c, type = ''keydown''\<rparr>"

definition release :: "string \<Rightarrow> KeyboardEvent" where
  "release c = \<lparr>key = c, type = ''keyup''\<rparr>"

text \<open>
  A note event carries a note; the field \<^verbatim>\<open>state\<close> tells a note-on from a note-off.
\<close>

definition is_note_on :: "INoteData \<Rightarrow> bool" where
  "is_note_on d = (data_note (data d) \<noteq> None \<and> data_state (data d) = Some (StateString ''on''))"

definition is_note_off :: "INoteData \<Rightarrow> bool" where
  "is_note_off d = (data_note (data d) \<noteq> None \<and> data_state (data d) = Some (StateString ''off''))"

text \<open>
  The invariant of the reachable states: an own property of \<^verbatim>\<open>heldKeys\<close> was stored
  under the guard \<^verbatim>\<open>note &&\<close>, so the read of the note table under its key is defined.
\<close>

definition held_are_notes :: "VirtualKeyBoard \<Rightarrow> bool" where
  "held_are_notes s = (\<forall>k. map_of (heldKeys s) k \<noteq> None \<longrightarrow> get keyToNoteMap k \<noteq> None)"

section \<open>Properties\<close>

subsection \<open>Reads of plain objects\<close>

lemma get_Val: "get obj k = Some (Val v) \<longleftrightarrow> obj k = Some v"
  by (auto simp add: get_def split: option.splits)

lemma get_Inherited:
  "get obj k = Some (Inherited name) \<longleftrightarrow> obj k = None \<and> k \<in> set Object_prototype \<and> name = k"
  by (auto simp add: get_def split: option.splits)

lemma get_None: "get obj k = None \<longleftrightarrow> obj k = None \<and> k \<notin> set Object_prototype"
  by (auto simp add: get_def split: option.splits)

lemma get_defined_elsewhere: "get obj k \<noteq> None \<Longrightarrow> obj k = None \<Longrightarrow> get obj' k \<noteq> None"
  by (auto simp add: get_def split: option.splits if_splits)

lemma get_inj:
  assumes "inj_on obj (dom obj)"
    and "get obj k = Some v" and "get obj k' = Some v"
  shows "k = k'"
proof (cases v)
  case (Val x)
  then have "obj k = Some x" "obj k' = Some x"
    using assms(2,3) by (simp_all add: get_Val)
  then show ?thesis
    using assms(1) by (auto simp add: inj_on_def dom_def)
next
  case (Inherited name)
  then show ?thesis
    using assms(2,3) by (simp add: get_Inherited)
qed

lemma map_of_put:
  "map_of (put al k v) = (if k = ''__proto__'' then map_of al else (map_of al)(k \<mapsto> v))"
  by (simp add: put_def update_conv')

subsection \<open>The tables\<close>

lemma note_keys:
  "keyToNoteMap k = Some n \<Longrightarrow>
   k \<in> {''a'', ''w'', ''s'', ''e'', ''d'', ''f'', ''t'', ''g'', ''y'', ''h'', ''u'', ''j'',
        ''k'', ''o'', ''l'', ''p''}"
  by (auto simp add: keyToNoteMap_def split: if_splits)

lemma note_not_inherited: "keyToNoteMap k = Some n \<Longrightarrow> k \<notin> set Object_prototype"
  by (drule note_keys) (auto simp add: Object_prototype_def)

lemma note_not_command: "keyToNoteMap k = Some n \<Longrightarrow> get keyToCommandsMap k = None"
  by (frule note_not_inherited, drule note_keys)
    (auto simp add: get_None keyToCommandsMap_def)



text \<open>
  The handler lowercases the key identity, and a lowercased key has no letter \<^verbatim>\<open>A\<close> to
  \<^verbatim>\<open>Z\<close>. So of the inherited names a lookup of the handler can reach
  \<^verbatim>\<open>constructor\<close> and \<^verbatim>\<open>__proto__\<close> only; in particular no own property of
  \<^verbatim>\<open>heldKeys\<close> ever hides the method \<^verbatim>\<open>hasOwnProperty\<close>.
\<close>

lemma toLowerCase_no_upper:
  "c \<in> set (toLowerCase str) \<Longrightarrow> \<not> (65 \<le> (of_char c :: nat) \<and> (of_char c :: nat) \<le> 90)"
  by (auto simp add: toLowerCase_def Let_def split: if_splits)

lemma toLowerCase_inherited:
  assumes "toLowerCase str \<in> set Object_prototype"
  shows "toLowerCase str = ''constructor'' \<or> toLowerCase str = ''__proto__''"
  using assms
    toLowerCase_no_upper [of "CHR ''G''" str] toLowerCase_no_upper [of "CHR ''S''" str]
    toLowerCase_no_upper [of "CHR ''O''" str] toLowerCase_no_upper [of "CHR ''P''" str]
    toLowerCase_no_upper [of "CHR ''I''" str]
  by (auto simp add: Object_prototype_def)

subsection \<open>The blocks of the handler\<close>

lemma keyHandler_keydown:
  "type event = ''keydown'' \<Longrightarrow>
   keyHandler event s =
     Inr (fst (keydown_command (toLowerCase (key event)) (fst (keydown_note (toLowerCase (key event)) s))),
          snd (keydown_note (toLowerCase (key event)) s) @
          snd (keydown_command (toLowerCase (key event)) (fst (keydown_note (toLowerCase (key event)) s))))"
  by (simp add: keyHandler_def Let_def split: prod.splits)

lemma keyHandler_keyup:
  "type event = ''keyup'' \<Longrightarrow> keyHandler event s = keyup (toLowerCase (key event)) s"
  by (cases "keyup (toLowerCase (key event)) s") (auto simp: keyHandler_def Let_def)

lemma keyHandler_other:
  "type event \<noteq> ''keydown'' \<Longrightarrow> type event \<noteq> ''keyup'' \<Longrightarrow> keyHandler event s = Inr (s, [])"
  by (simp add: keyHandler_def Let_def)

lemma state_of_keydown:
  "type event = ''keydown'' \<Longrightarrow>
   state_of (keyHandler event s) =
     fst (keydown_command (toLowerCase (key event)) (fst (keydown_note (toLowerCase (key event)) s)))"
  by (simp add: keyHandler_keydown)

lemma freqCorrection_octave: "octave t = octave s \<Longrightarrow> freqCorrection f t = freqCorrection f s"
  by (simp add: freqCorrection_def)

lemma keydown_note_trigger:
  "get keyToNoteMap k = Some note' \<Longrightarrow> map_of (heldKeys s) k = None \<or> holdMode s \<Longrightarrow>
   keydown_note k s =
     (s\<lparr>activeVoices := activeVoices s + 1,
        heldKeys := put (heldKeys s) k (activeVoices s)\<rparr>,
      [\<lparr>action = ''date'',
        data = \<lparr>data_note = Some note',
                data_freq = Some (freqCorrection (freq_of note') s),
                data_voice = Some (Val (activeVoices s)),
                data_state = Some (StateString ''on''),
                data_command = None\<rparr>\<rparr>])"
  by (auto simp add: keydown_note_def Let_def freqCorrection_def)

lemma keydown_note_skip:
  "get keyToNoteMap k = None \<or> (map_of (heldKeys s) k \<noteq> None \<and> \<not> holdMode s) \<Longrightarrow>
   keydown_note k s = (s, [])"
  by (auto simp add: keydown_note_def Let_def split: option.splits)

lemma keydown_note_settings:
  "octave (fst (keydown_note k s)) = octave s"
  "velocity (fst (keydown_note k s)) = velocity s"
  "holdMode (fst (keydown_note k s)) = holdMode s"
  "subscribers (fst (keydown_note k s)) = subscribers s"
  by (simp_all add: keydown_note_def Let_def split: option.splits)

lemma heldKeys_keydown_note:
  "heldKeys (fst (keydown_note k s)) = heldKeys s \<or>
   (get keyToNoteMap k \<noteq> None \<and>
    heldKeys (fst (keydown_note k s)) = put (heldKeys s) k (activeVoices s) \<and>
    activeVoices (fst (keydown_note k s)) = activeVoices s + 1)"
  by (auto simp add: keydown_note_def Let_def split: option.splits)

lemma keydown_command_none:
  "get keyToCommandsMap k = None \<Longrightarrow> keydown_command k s = (s, [])"
  by (simp add: keydown_command_def)

lemma keydown_command_fields:
  "heldKeys (fst (keydown_command k s)) = heldKeys s"
  "activeVoices (fst (keydown_command k s)) = activeVoices s"
  "subscribers (fst (keydown_command k s)) = subscribers s"
  by (simp_all add: keydown_command_def Let_def split: option.splits property_value.splits)


lemma reset_voices_fields:
  "heldKeys (reset_voices s) = heldKeys s"
  "octave (reset_voices s) = octave s"
  "velocity (reset_voices s) = velocity s"
  "holdMode (reset_voices s) = holdMode s"
  "subscribers (reset_voices s) = subscribers s"
  by (simp_all add: reset_voices_def)

lemma keyup_absent:
  "get (map_of (heldKeys s)) k = None \<or> holdMode s \<Longrightarrow> keyup k s = Inr (reset_voices s, [])"
  by (auto simp add: keyup_def split: option.splits)

lemma keyup_held:
  "get (map_of (heldKeys s)) k = Some heldKey \<Longrightarrow> \<not> holdMode s \<Longrightarrow>
   get keyToNoteMap k = Some note' \<Longrightarrow>
   keyup k s =
     Inr (reset_voices (s\<lparr>heldKeys := AList.delete k (heldKeys s)\<rparr>),
          [\<lparr>action = ''gate'',
            data = \<lparr>data_note = Some note',
                    data_freq = Some (freqCorrection (freq_of note') s),
                    data_voice = Some heldKey,
                    data_state = Some (StateString ''off''),
                    data_command = None\<rparr>\<rparr>])"
  by (simp add: keyup_def Let_def freqCorrection_def)

lemma keyup_settings:
  "octave (state_of (keyup k s)) = octave s"
  "velocity (state_of (keyup k s)) = velocity s"
  "holdMode (state_of (keyup k s)) = holdMode s"
  "subscribers (state_of (keyup k s)) = subscribers s"
  by (simp_all add: keyup_def Let_def reset_voices_fields split: option.splits)

subsection \<open>Sequences of events\<close>

lemma run_Cons_fst: "fst (run (e # es) s) = fst (run es (state_of (keyHandler e s)))"
  by (simp add: Let_def split: prod.splits)


lemma run_append_fst: "fst (run (xs @ ys) s) = fst (run ys (fst (run xs s)))"
  by (induction xs arbitrary: s) (simp_all add: run_Cons_fst del: run.simps(2))

subsection \<open>Invariants\<close>

lemma held_are_notes_step:
  assumes "held_are_notes s"
  shows "held_are_notes (state_of (keyHandler event s))"
proof -
  let ?k = "toLowerCase (key event)"
  consider (down) "type event = ''keydown''" | (up) "type event = ''keyup''"
    | (other) "type event \<noteq> ''keydown''" "type event \<noteq> ''keyup''" by blast
  then show ?thesis
  proof cases
    case down
    have "held_are_notes (fst (keydown_note ?k s))"
      using assms heldKeys_keydown_note [of ?k s]
      by (auto simp add: held_are_notes_def map_of_put split: if_splits)
    then show ?thesis
      using down by (simp add: state_of_keydown held_are_notes_def keydown_command_fields)
  next
    case up
    have "heldKeys (state_of (keyup ?k s)) = heldKeys s \<or>
          heldKeys (state_of (keyup ?k s)) = AList.delete ?k (heldKeys s)"
      by (auto simp add: keyup_def Let_def reset_voices_fields split: option.splits)
    then have "held_are_notes (state_of (keyup ?k s))"
      using assms by (auto simp add: held_are_notes_def delete_conv' split: if_splits)
    then show ?thesis
      using up by (simp add: keyHandler_keyup)
  next
    case other
    then show ?thesis using assms by (simp add: keyHandler_other)
  qed
qed

lemma subscribers_step: "subscribers (state_of (keyHandler event s)) = subscribers s"
proof -
  let ?k = "toLowerCase (key event)"
  consider (down) "type event = ''keydown''" | (up) "type event = ''keyup''"
    | (other) "type event \<noteq> ''keydown''" "type event \<noteq> ''keyup''" by blast
  then show ?thesis
  proof cases
    case down
    then show ?thesis
      by (simp add: state_of_keydown keydown_command_fields keydown_note_settings)
  next
    case up
    then show ?thesis by (simp add: keyHandler_keyup keyup_settings)
  next
    case other
    then show ?thesis by (simp add: keyHandler_other)
  qed
qed

lemma indexOf_neg_iff: "indexOf xs x < 0 \<longleftrightarrow> x \<notin> set xs"
  by (induction xs) (auto simp add: Let_def)

lemma splice_distinct: "distinct xs \<Longrightarrow> distinct (splice xs i n)"
  using set_take_disj_set_drop_if_distinct [of xs "nat i" "nat i + n"]
  by (simp add: splice_def)

lemma distinct_subscribe: "distinct (subscribers s) \<Longrightarrow> distinct (subscribers (subscribe cb s))"
  by (simp add: subscribe_def indexOf_neg_iff)

lemma reachable_invariants:
  "reachable s \<Longrightarrow> held_are_notes s \<and> distinct (subscribers s)"
proof (induction rule: reachable.induct)
  case (init octave' velocity')
  show ?case by (simp add: constructor_def held_are_notes_def)
next
  case (handled s event)
  then show ?case
    by (simp add: held_are_notes_step subscribers_step)
next
  case (subscribed s cb)
  then show ?case
    by (auto simp add: subscribe_def held_are_notes_def indexOf_neg_iff)
next
  case (unsubscribed s cb)
  then show ?case
    by (auto simp add: unsubscribe_def Let_def held_are_notes_def splice_distinct)
qed

lemma run_reachable: "reachable s \<Longrightarrow> reachable (fst (run es s))"
proof (induction es arbitrary: s)
  case Nil
  then show ?case by simp
next
  case (Cons e es)
  have "reachable (state_of (keyHandler e s))"
    using Cons.prems by (rule reachable.handled)
  then show ?case
    using Cons.IH by (simp add: run_Cons_fst del: run.simps(2))
qed

text \<open>
  The read of the note table is defined wherever the read of \<^verbatim>\<open>heldKeys\<close> is: under an
  own key by the invariant, under an inherited name because both objects inherit it.
\<close>

lemma held_read_has_note:
  assumes "held_are_notes s" and "get (map_of (heldKeys s)) k \<noteq> None"
  shows "get keyToNoteMap k \<noteq> None"
proof (cases "map_of (heldKeys s) k")
  case None
  then show ?thesis
    using assms(2) by (rule get_defined_elsewhere [rotated])
next
  case (Some v)
  then show ?thesis
    using assms(1) by (simp add: held_are_notes_def)
qed

lemma keyHandler_returns:
  assumes "held_are_notes s"
  shows "\<exists>s' out. keyHandler event s = Inr (s', out)"
proof -
  let ?k = "toLowerCase (key event)"
  consider (down) "type event = ''keydown''" | (up) "type event = ''keyup''"
    | (other) "type event \<noteq> ''keydown''" "type event \<noteq> ''keyup''" by blast
  then show ?thesis
  proof cases
    case down
    then show ?thesis by (simp add: keyHandler_keydown)
  next
    case up
    have "\<exists>s' out. keyup ?k s = Inr (s', out)"
    proof (cases "get (map_of (heldKeys s)) ?k")
      case None
      then show ?thesis by (simp add: keyup_absent)
    next
      case (Some heldKey)
      then have "get keyToNoteMap ?k \<noteq> None"
        using held_read_has_note [OF assms, of ?k] by simp
      then show ?thesis
        using Some by (auto simp add: keyup_def Let_def)
    qed
    then show ?thesis using up by (simp add: keyHandler_keyup)
  next
    case other
    then show ?thesis by (simp add: keyHandler_other)
  qed
qed

text \<open>
  In a reachable state no call of the handler throws: where the release block reads
  \<^verbatim>\<open>note.freq\<close>, the note is defined.
\<close>

lemma reachable_returns:
  "reachable s \<Longrightarrow> \<exists>s' out. keyHandler event s = Inr (s', out)"
  by (simp add: reachable_invariants keyHandler_returns)

text \<open>
  The failure is a branch of the model: in a state that no interpreter reaches, with a
  held key for which the read of the note table is undefined, the release throws after
  deleting the entry.
\<close>

lemma keyup_unmapped_throws:
  "keyHandler (release ''q'') ((constructor None None)\<lparr>heldKeys := [(''q'', 0)]\<rparr>) =
     Inl (TypeError, constructor None None)"
  by code_simp


subsection \<open>Pressing a note key\<close>

text \<open>
  Claim C2. A \<^verbatim>\<open>keydown\<close> of a key of the note table returns, and it emits a note-on
  if and only if the key is not in \<^verbatim>\<open>heldKeys\<close> or hold mode is active. What it emits
  is then that one note-on, with the voice equal to the counter before the call; the
  counter is one more afterwards and \<^verbatim>\<open>heldKeys\<close> maps the key to that voice. When
  nothing is emitted the state is the same as before.
\<close>

theorem press_triggers_note:
  assumes "type event = ''keydown''"
    and "keyToNoteMap (toLowerCase (key event)) = Some n"
  shows "\<exists>s' out. keyHandler event s = Inr (s', out) \<and>
           ((\<exists>d\<in>set out. is_note_on d) \<longleftrightarrow>
              (map_of (heldKeys s) (toLowerCase (key event)) = None \<or> holdMode s)) \<and>
           (\<forall>d\<in>set out. is_note_on d \<and> data_voice (data d) = Some (Val (activeVoices s))) \<and>
           (out \<noteq> [] \<longrightarrow>
              length out = 1 \<and> activeVoices s' = activeVoices s + 1 \<and>
              map_of (heldKeys s') (toLowerCase (key event)) = Some (activeVoices s)) \<and>
           (out = [] \<longrightarrow> s' = s)"
proof -
  let ?k = "toLowerCase (key event)"
  have c: "keydown_command ?k t = (t, [])" for t
    using assms(2) by (simp add: keydown_command_none note_not_command)
  have g: "get keyToNoteMap ?k = Some (Val n)"
    using assms(2) by (simp add: get_Val)
  have p: "?k \<noteq> ''__proto__''"
    using note_not_inherited [OF assms(2)] by (auto simp add: Object_prototype_def)
  show ?thesis
  proof (cases "map_of (heldKeys s) ?k = None \<or> holdMode s")
    case True
    show ?thesis
      using True assms(1) p
      by (simp add: keyHandler_keydown keydown_note_trigger [OF g True] c
          is_note_on_def map_of_put)
  next
    case False
    then have "keydown_note ?k s = (s, [])"
      by (simp add: keydown_note_skip)
    then show ?thesis
      using False assms(1) by (simp add: keyHandler_keydown c)
  qed
qed

theorem press_triggers_note_witness:
  "type (press ''A'') = ''keydown'' \<and>
   keyToNoteMap (toLowerCase (key (press ''A''))) = Some \<lparr>note_name = ''C'', note_freq = 16.35\<rparr> \<and>
   (\<exists>s' d. keyHandler (press ''A'') (constructor None None) = Inr (s', [d]) \<and>
      is_note_on d \<and> data_voice (data d) = Some (Val 0) \<and> activeVoices s' = 1 \<and>
      map_of (heldKeys s') ''a'' = Some 0)"
proof -
  have t: "type (press ''A'') = ''keydown''"
    by code_simp
  have k: "toLowerCase (key (press ''A'')) = ''a''"
    by code_simp
  have n: "keyToNoteMap (toLowerCase (key (press ''A''))) = Some \<lparr>note_name = ''C'', note_freq = 16.35\<rparr>"
    by code_simp
  have free: "map_of (heldKeys (constructor None None)) ''a'' = None"
    by code_simp
  have v: "activeVoices (constructor None None) = 0"
    by code_simp
  obtain s' out where r: "keyHandler (press ''A'') (constructor None None) = Inr (s', out)"
    and on: "(\<exists>d\<in>set out. is_note_on d) \<longleftrightarrow>
       (map_of (heldKeys (constructor None None)) (toLowerCase (key (press ''A''))) = None \<or>
        holdMode (constructor None None))"
    and all: "\<forall>d\<in>set out. is_note_on d \<and>
       data_voice (data d) = Some (Val (activeVoices (constructor None None)))"
    and ne: "out \<noteq> [] \<longrightarrow> length out = 1 \<and> activeVoices s' = activeVoices (constructor None None) + 1 \<and>
       map_of (heldKeys s') (toLowerCase (key (press ''A''))) = Some (activeVoices (constructor None None))"
    using press_triggers_note [OF t n, of "constructor None None"] by blast
  from on free k have "out \<noteq> []" by auto
  with ne have l: "length out = 1" and a: "activeVoices s' = 1" and m: "map_of (heldKeys s') ''a'' = Some 0"
    using k v by auto
  from l obtain d where d: "out = [d]"
    by (cases out) auto
  with all v have "is_note_on d \<and> data_voice (data d) = Some (Val 0)" by simp
  with r d a m t n show ?thesis by blast
qed

subsection \<open>Releasing a held key\<close>

text \<open>
  Claim C3. In a reachable state with hold mode off, a \<^verbatim>\<open>keyup\<close> of a key that is in
  \<^verbatim>\<open>heldKeys\<close> returns having emitted exactly one event, a note-off whose voice is the
  one \<^verbatim>\<open>heldKeys\<close> stored for the key (the voice the triggering press stored there);
  afterwards \<^verbatim>\<open>heldKeys\<close> lacks that key and holds every other entry as before.
\<close>

theorem release_emits_note_off:
  assumes "reachable s"
    and "type event = ''keyup''"
    and "map_of (heldKeys s) (toLowerCase (key event)) = Some v"
    and "\<not> holdMode s"
  shows "\<exists>s' d. keyHandler event s = Inr (s', [d]) \<and>
           is_note_off d \<and> data_voice (data d) = Some (Val v) \<and>
           heldKeys s' = AList.delete (toLowerCase (key event)) (heldKeys s) \<and>
           map_of (heldKeys s') = (map_of (heldKeys s))(toLowerCase (key event) := None)"
proof -
  let ?k = "toLowerCase (key event)"
  have h: "get (map_of (heldKeys s)) ?k = Some (Val v)"
    using assms(3) by (simp add: get_Val)
  have "held_are_notes s"
    using assms(1) by (simp add: reachable_invariants)
  then obtain note' where n: "get keyToNoteMap ?k = Some note'"
    using assms(3) by (auto simp add: held_are_notes_def)
  show ?thesis
    using assms(2)
    by (simp add: keyHandler_keyup keyup_held [OF h assms(4) n] is_note_off_def
        reset_voices_fields delete_conv')
qed

theorem release_emits_note_off_witness:
  "reachable (fst (run [press ''a'', press ''s''] (constructor None None))) \<and>
   type (release ''a'') = ''keyup'' \<and>
   map_of (heldKeys (fst (run [press ''a'', press ''s''] (constructor None None))))
     (toLowerCase (key (release ''a''))) = Some 0 \<and>
   \<not> holdMode (fst (run [press ''a'', press ''s''] (constructor None None))) \<and>
   (\<exists>s' d. keyHandler (release ''a'') (fst (run [press ''a'', press ''s''] (constructor None None)))
        = Inr (s', [d]) \<and>
      is_note_off d \<and> data_voice (data d) = Some (Val 0) \<and> heldKeys s' = [(''s'', 1)])"
proof -
  let ?s = "fst (run [press ''a'', press ''s''] (constructor None None))"
  have r: "reachable ?s"
    by (intro run_reachable reachable.init)
  have t: "type (release ''a'') = ''keyup''"
    by code_simp
  have h: "map_of (heldKeys ?s) (toLowerCase (key (release ''a''))) = Some 0"
    by code_simp
  have m: "\<not> holdMode ?s"
    by code_simp
  have d: "AList.delete (toLowerCase (key (release ''a''))) (heldKeys ?s) = [(''s'', 1)]"
    by code_simp
  show ?thesis
    using release_emits_note_off [OF r t h m] r t h m d by (auto simp del: run.simps)
qed

subsection \<open>The note events\<close>









subsection \<open>Releases in hold mode\<close>





subsection \<open>Subscribing and unsubscribing\<close>

lemma filter_callback:
  "distinct xs \<Longrightarrow> cb \<in> set xs \<Longrightarrow> filter (\<lambda>c. fst c = cb) (map (\<lambda>f. (f, d)) xs) = [(cb, d)]"
proof (induction xs)
  case Nil
  then show ?case by simp
next
  case (Cons x xs)
  show ?case
  proof (cases "x = cb")
    case True
    then have "cb \<notin> set xs" using Cons.prems by simp
    then have "filter (\<lambda>c. fst c = cb) (map (\<lambda>f. (f, d)) xs) = []"
      by (auto simp add: filter_empty_conv)
    then show ?thesis using True by simp
  next
    case False
    then show ?thesis using Cons by simp
  qed
qed

text \<open>
  Claim C9. Subscribing a callback that is registered returns the interpreter as it
  is, so a second subscription changes nothing; unsubscribing a callback that is not
  registered returns the interpreter as it is. After a callback is subscribed twice to
  a reachable interpreter, one call of \<^verbatim>\<open>emit\<close> calls it exactly once with the data,
  and returns the data.
\<close>

theorem subscribe_twice_once:
  "(cb \<in> set (subscribers s) \<longrightarrow> subscribe cb s = s) \<and>
   subscribe cb (subscribe cb s) = subscribe cb s \<and>
   (cb \<notin> set (subscribers s) \<longrightarrow> unsubscribe cb s = s) \<and>
   (reachable s \<longrightarrow>
      filter (\<lambda>c. fst c = cb) (fst (emit d (subscribe cb (subscribe cb s)))) = [(cb, d)] \<and>
      snd (emit d (subscribe cb (subscribe cb s))) = d)"
proof -
  have a: "cb \<in> set (subscribers s) \<longrightarrow> subscribe cb s = s"
    by (simp add: subscribe_def indexOf_neg_iff)
  have m: "cb \<in> set (subscribers (subscribe cb s))"
    by (simp add: subscribe_def indexOf_neg_iff)
  have b: "subscribe cb (subscribe cb s) = subscribe cb s"
    using m by (simp add: subscribe_def [of cb "subscribe cb s"] indexOf_neg_iff)
  have c: "cb \<notin> set (subscribers s) \<longrightarrow> unsubscribe cb s = s"
    by (simp add: unsubscribe_def indexOf_neg_iff)
  have e: "filter (\<lambda>c. fst c = cb) (fst (emit d (subscribe cb (subscribe cb s)))) = [(cb, d)]"
    if "reachable s"
  proof -
    have "distinct (subscribers (subscribe cb s))"
      using that by (simp add: reachable_invariants distinct_subscribe)
    then show ?thesis
      using m by (simp add: b emit_def filter_callback)
  qed
  show ?thesis
    using a b c e by (simp add: emit_def)
qed

theorem subscribe_twice_once_witness:
  "7 \<in> set (subscribers (subscribe 7 (subscribe 3 (constructor None None)))) \<and>
   subscribe 7 (subscribe 7 (subscribe 3 (constructor None None))) =
     subscribe 7 (subscribe 3 (constructor None None)) \<and>
   5 \<notin> set (subscribers (subscribe 7 (subscribe 3 (constructor None None)))) \<and>
   unsubscribe 5 (subscribe 7 (subscribe 3 (constructor None None))) =
     subscribe 7 (subscribe 3 (constructor None None)) \<and>
   reachable (subscribe 3 (constructor None None)) \<and>
   fst (emit \<lparr>action = ''settings'', data = no_data\<rparr>
          (subscribe 7 (subscribe 7 (subscribe 3 (constructor None None))))) =
     [(3, \<lparr>action = ''settings'', data = no_data\<rparr>), (7, \<lparr>action = ''settings'', data = no_data\<rparr>)] \<and>
   filter (\<lambda>c. fst c = 7)
     (fst (emit \<lparr>action = ''settings'', data = no_data\<rparr>
        (subscribe 7 (subscribe 7 (subscribe 3 (constructor None None)))))) =
     [(7, \<lparr>action = ''settings'', data = no_data\<rparr>)]"
proof -
  let ?s = "subscribe 3 (constructor None None)"
  have i: "7 \<in> set (subscribers (subscribe 7 ?s))"
    by code_simp
  have o: "5 \<notin> set (subscribers (subscribe 7 ?s))"
    by code_simp
  have r: "reachable ?s"
    by (intro reachable.intros)
  have l: "fst (emit \<lparr>action = ''settings'', data = no_data\<rparr> (subscribe 7 (subscribe 7 ?s))) =
     [(3, \<lparr>action = ''settings'', data = no_data\<rparr>), (7, \<lparr>action = ''settings'', data = no_data\<rparr>)]"
    by code_simp
  show ?thesis
    using subscribe_twice_once [of 7 "subscribe 7 ?s" "\<lparr>action = ''settings'', data = no_data\<rparr>"]
      subscribe_twice_once [of 5 "subscribe 7 ?s" "\<lparr>action = ''settings'', data = no_data\<rparr>"]
      subscribe_twice_once [of 7 ?s "\<lparr>action = ''settings'', data = no_data\<rparr>"]
      i o r l
    by simp
qed

subsection \<open>Octave and velocity\<close>

lemma limitTo_in_range:
  "lo \<le> hi \<Longrightarrow> in_range lo hi (limitTo (Num a) (Num lo) (Num hi))"
  by (simp add: limitTo_def Math_min_def Math_max_def in_range_def)

lemma limitTo_NaN: "limitTo NaN lo hi = NaN"
  by (simp add: limitTo_def Math_min_def Math_max_def)

lemma in_range_not_NaN: "in_range lo hi x \<Longrightarrow> x \<noteq> NaN"
  by (auto simp add: in_range_def)

text \<open>
  A command block leaves the octave as it is or clamps it, and a clamped octave is in
  range unless the octave it started from was \<open>NaN\<close>; likewise for the velocity.
\<close>

lemma keydown_command_octave:
  "octave (fst (keydown_command k s)) = octave s \<or>
   (octave s \<noteq> NaN \<longrightarrow> in_range (- 8) 8 (octave (fst (keydown_command k s))))"
  by (cases "octave s")
    (simp_all add: keydown_command_def Let_def limitTo_in_range plus_number_def minus_number_def
      split: option.splits property_value.splits)

lemma keydown_command_velocity:
  "velocity (fst (keydown_command k s)) = velocity s \<or>
   (velocity s \<noteq> NaN \<longrightarrow> in_range 0 127 (velocity (fst (keydown_command k s))))"
  by (cases "velocity s")
    (simp_all add: keydown_command_def Let_def limitTo_in_range plus_number_def minus_number_def
      split: option.splits property_value.splits)

lemma octave_step:
  "octave (state_of (keyHandler event s)) = octave s \<or>
   (octave s \<noteq> NaN \<longrightarrow> in_range (- 8) 8 (octave (state_of (keyHandler event s))))"
proof -
  let ?k = "toLowerCase (key event)"
  consider (down) "type event = ''keydown''" | (up) "type event = ''keyup''"
    | (other) "type event \<noteq> ''keydown''" "type event \<noteq> ''keyup''" by blast
  then show ?thesis
  proof cases
    case down
    then show ?thesis
      using keydown_command_octave [of ?k "fst (keydown_note ?k s)"]
      by (simp add: state_of_keydown keydown_note_settings)
  next
    case up
    then show ?thesis by (simp add: keyHandler_keyup keyup_settings)
  next
    case other
    then show ?thesis by (simp add: keyHandler_other)
  qed
qed

lemma velocity_step:
  "velocity (state_of (keyHandler event s)) = velocity s \<or>
   (velocity s \<noteq> NaN \<longrightarrow> in_range 0 127 (velocity (state_of (keyHandler event s))))"
proof -
  let ?k = "toLowerCase (key event)"
  consider (down) "type event = ''keydown''" | (up) "type event = ''keyup''"
    | (other) "type event \<noteq> ''keydown''" "type event \<noteq> ''keyup''" by blast
  then show ?thesis
  proof cases
    case down
    then show ?thesis
      using keydown_command_velocity [of ?k "fst (keydown_note ?k s)"]
      by (simp add: state_of_keydown keydown_note_settings)
  next
    case up
    then show ?thesis by (simp add: keyHandler_keyup keyup_settings)
  next
    case other
    then show ?thesis by (simp add: keyHandler_other)
  qed
qed

lemma run_octave_not_NaN: "octave s \<noteq> NaN \<Longrightarrow> octave (fst (run es s)) \<noteq> NaN"
proof (induction es arbitrary: s)
  case Nil
  then show ?case by simp
next
  case (Cons e es)
  have "octave (state_of (keyHandler e s)) \<noteq> NaN"
    using octave_step [of e s] Cons.prems by (auto dest: in_range_not_NaN)
  then show ?case
    using Cons.IH by (simp add: run_Cons_fst del: run.simps(2))
qed

lemma run_velocity_not_NaN: "velocity s \<noteq> NaN \<Longrightarrow> velocity (fst (run es s)) \<noteq> NaN"
proof (induction es arbitrary: s)
  case Nil
  then show ?case by simp
next
  case (Cons e es)
  have "velocity (state_of (keyHandler e s)) \<noteq> NaN"
    using velocity_step [of e s] Cons.prems by (auto dest: in_range_not_NaN)
  then show ?case
    using Cons.IH by (simp add: run_Cons_fst del: run.simps(2))
qed

lemma run_octave_range:
  "in_range (- 8) 8 (octave s) \<Longrightarrow> in_range (- 8) 8 (octave (fst (run es s)))"
proof (induction es arbitrary: s)
  case Nil
  then show ?case by simp
next
  case (Cons e es)
  have "in_range (- 8) 8 (octave (state_of (keyHandler e s)))"
    using octave_step [of e s] Cons.prems by (auto dest: in_range_not_NaN)
  then show ?case
    using Cons.IH by (simp add: run_Cons_fst del: run.simps(2))
qed

lemma run_velocity_range:
  "in_range 0 127 (velocity s) \<Longrightarrow> in_range 0 127 (velocity (fst (run es s)))"
proof (induction es arbitrary: s)
  case Nil
  then show ?case by simp
next
  case (Cons e es)
  have "in_range 0 127 (velocity (state_of (keyHandler e s)))"
    using velocity_step [of e s] Cons.prems by (auto dest: in_range_not_NaN)
  then show ?case
    using Cons.IH by (simp add: run_Cons_fst del: run.simps(2))
qed

lemma octave_command_range:
  assumes "type event = ''keydown''"
    and "keyToCommandsMap (toLowerCase (key event)) = Some command"
    and "command = ''octave-up'' \<or> command = ''octave-down''"
    and "octave s \<noteq> NaN"
  shows "in_range (- 8) 8 (octave (state_of (keyHandler event s)))"
proof -
  let ?k = "toLowerCase (key event)"
  let ?t = "fst (keydown_note ?k s)"
  have g: "get keyToCommandsMap ?k = Some (Val command)"
    using assms(2) by (simp add: get_Val)
  obtain a where a: "octave ?t = Num a"
    using assms(4) by (cases "octave s") (simp_all add: keydown_note_settings)
  have "in_range (- 8) 8 (octave (fst (keydown_command ?k ?t)))"
    using assms(3) a g
    by (auto simp add: keydown_command_def Let_def limitTo_in_range plus_number_def
        minus_number_def)
  then show ?thesis
    using assms(1) by (simp add: state_of_keydown)
qed

lemma velocity_command_range:
  assumes "type event = ''keydown''"
    and "keyToCommandsMap (toLowerCase (key event)) = Some command"
    and "command = ''velocity-up'' \<or> command = ''velocity-down''"
    and "velocity s \<noteq> NaN"
  shows "in_range 0 127 (velocity (state_of (keyHandler event s)))"
proof -
  let ?k = "toLowerCase (key event)"
  let ?t = "fst (keydown_note ?k s)"
  have g: "get keyToCommandsMap ?k = Some (Val command)"
    using assms(2) by (simp add: get_Val)
  obtain a where a: "velocity ?t = Num a"
    using assms(4) by (cases "velocity s") (simp_all add: keydown_note_settings)
  have "in_range 0 127 (velocity (fst (keydown_command ?k ?t)))"
    using assms(3) a g
    by (auto simp add: keydown_command_def Let_def limitTo_in_range plus_number_def
        minus_number_def)
  then show ?thesis
    using assms(1) by (simp add: state_of_keydown)
qed

text \<open>
  Claim C5, as amended. From any state whose octave is not \<open>NaN\<close>, whatever number it
  was constructed with, and after any sequence of key events \<open>es1\<close>: once an octave-up
  or octave-down command is handled the octave is in \<open>[-8, 8]\<close>, right after the
  command and after any further events \<open>es2\<close>. From any state whose velocity is not
  \<open>NaN\<close>, once a velocity-up or velocity-down command is handled the velocity is in
  \<open>[0, 127]\<close>, likewise.
\<close>

theorem octave_velocity_clamped:
  assumes "type event = ''keydown''"
    and "keyToCommandsMap (toLowerCase (key event)) = Some command"
  shows "((command = ''octave-up'' \<or> command = ''octave-down'') \<and> octave s \<noteq> NaN \<longrightarrow>
            in_range (- 8) 8 (octave (state_of (keyHandler event s))) \<and>
            in_range (- 8) 8 (octave (fst (run (es1 @ event # es2) s)))) \<and>
         ((command = ''velocity-up'' \<or> command = ''velocity-down'') \<and> velocity s \<noteq> NaN \<longrightarrow>
            in_range 0 127 (velocity (state_of (keyHandler event s))) \<and>
            in_range 0 127 (velocity (fst (run (es1 @ event # es2) s))))"
proof -
  have r: "fst (run (es1 @ event # es2) s) = fst (run es2 (state_of (keyHandler event (fst (run es1 s)))))"
    by (simp add: run_append_fst run_Cons_fst del: run.simps(2))
  show ?thesis
    unfolding r
  proof (intro conjI impI)
    assume c: "(command = ''octave-up'' \<or> command = ''octave-down'') \<and> octave s \<noteq> NaN"
    then have c1: "command = ''octave-up'' \<or> command = ''octave-down''" and c2: "octave s \<noteq> NaN"
      by simp_all
    show "in_range (- 8) 8 (octave (state_of (keyHandler event s)))"
      using assms c1 c2 by (rule octave_command_range)
    have "octave (fst (run es1 s)) \<noteq> NaN"
      using c2 by (rule run_octave_not_NaN)
    with assms c1 have "in_range (- 8) 8 (octave (state_of (keyHandler event (fst (run es1 s)))))"
      by (rule octave_command_range)
    then show "in_range (- 8) 8 (octave (fst (run es2 (state_of (keyHandler event (fst (run es1 s)))))))"
      by (rule run_octave_range)
  next
    assume c: "(command = ''velocity-up'' \<or> command = ''velocity-down'') \<and> velocity s \<noteq> NaN"
    then have c1: "command = ''velocity-up'' \<or> command = ''velocity-down''" and c2: "velocity s \<noteq> NaN"
      by simp_all
    show "in_range 0 127 (velocity (state_of (keyHandler event s)))"
      using assms c1 c2 by (rule velocity_command_range)
    have "velocity (fst (run es1 s)) \<noteq> NaN"
      using c2 by (rule run_velocity_not_NaN)
    with assms c1 have "in_range 0 127 (velocity (state_of (keyHandler event (fst (run es1 s)))))"
      by (rule velocity_command_range)
    then show "in_range 0 127 (velocity (fst (run es2 (state_of (keyHandler event (fst (run es1 s)))))))"
      by (rule run_velocity_range)
  qed
qed

theorem octave_velocity_clamped_witness:
  "type (press ''x'') = ''keydown'' \<and>
   keyToCommandsMap (toLowerCase (key (press ''x''))) = Some ''octave-up'' \<and>
   octave (constructor (Some (Num 100)) (Some (Num 1000))) = Num 100 \<and>
   octave (state_of (keyHandler (press ''x'') (constructor (Some (Num 100)) (Some (Num 1000))))) = Num 8 \<and>
   in_range (- 8) 8 (octave (fst (run ([press ''z'', press ''a''] @ press ''x'' # [release ''a'', press ''x''])
       (constructor (Some (Num 100)) (Some (Num 1000)))))) \<and>
   type (press ''C'') = ''keydown'' \<and>
   keyToCommandsMap (toLowerCase (key (press ''C''))) = Some ''velocity-down'' \<and>
   velocity (constructor (Some (Num 100)) (Some (Num (- 1000)))) = Num (- 1000) \<and>
   velocity (state_of (keyHandler (press ''C'') (constructor (Some (Num 100)) (Some (Num (- 1000)))))) = Num 0 \<and>
   in_range 0 127 (velocity (fst (run ([] @ press ''C'' # [press ''v''])
       (constructor (Some (Num 100)) (Some (Num (- 1000)))))))"
proof -
  let ?s = "constructor (Some (Num 100)) (Some (Num 1000))"
  let ?t = "constructor (Some (Num 100)) (Some (Num (- 1000)))"
  have t: "type (press ''x'') = ''keydown''"
    by code_simp
  have c: "keyToCommandsMap (toLowerCase (key (press ''x''))) = Some ''octave-up''"
    by code_simp
  have i: "octave ?s = Num 100"
    by code_simp
  have v: "octave (state_of (keyHandler (press ''x'') ?s)) = Num 8"
    by code_simp
  have t': "type (press ''C'') = ''keydown''"
    by code_simp
  have c': "keyToCommandsMap (toLowerCase (key (press ''C''))) = Some ''velocity-down''"
    by code_simp
  have i': "velocity ?t = Num (- 1000)"
    by code_simp
  have v': "velocity (state_of (keyHandler (press ''C'') ?t)) = Num 0"
    by code_simp
  show ?thesis
    using octave_velocity_clamped [OF t c, of ?s "[press ''z'', press ''a'']" "[release ''a'', press ''x'']"]
      octave_velocity_clamped [OF t' c', of ?t "[]" "[press ''v'']"]
      t c i v t' c' i' v'
    by (simp del: run.simps)
qed

text \<open>
  An interpreter constructed with \<open>NaN\<close> keeps \<open>NaN\<close> through every command:
  \<^verbatim>\<open>Math.max\<close> and \<^verbatim>\<open>Math.min\<close> return \<open>NaN\<close> for it.
\<close>

theorem octave_NaN_counterexample:
  "octave (state_of (keyHandler (press ''x'') (constructor (Some NaN) (Some NaN)))) = NaN \<and>
   \<not> in_range (- 8) 8 (octave (state_of (keyHandler (press ''x'') (constructor (Some NaN) (Some NaN))))) \<and>
   velocity (state_of (keyHandler (press ''v'') (constructor (Some NaN) (Some NaN)))) = NaN \<and>
   \<not> in_range 0 127 (velocity (state_of (keyHandler (press ''v'') (constructor (Some NaN) (Some NaN)))))"
  by code_simp

subsection \<open>Keys that the tables inherit\<close>

text \<open>
  The handler lowercases the key, and \<^verbatim>\<open>constructor\<close> and \<^verbatim>\<open>__proto__\<close> are the
  inherited names that are their own lowercase: every plain object has a value for
  them, so the guards \<^verbatim>\<open>note &&\<close> and \<^verbatim>\<open>if (command)\<close> pass for keys that are in
  neither table.

  Claim C8 fails on the code. The key identity \<^verbatim>\<open>constructor\<close> has no note and no
  command, and its press in a new interpreter emits a note event and a settings event,
  stores a voice in \<^verbatim>\<open>heldKeys\<close> and increments the counter; its release in a new
  interpreter emits a note event too.
\<close>

theorem inherited_key_is_handled:
  "keyToNoteMap ''constructor'' = None \<and> keyToCommandsMap ''constructor'' = None \<and>
   keyHandler (press ''constructor'') (constructor None None) =
     Inr ((constructor None None)\<lparr>heldKeys := [(''constructor'', 0)], activeVoices := 1\<rparr>,
          [\<lparr>action = ''date'',
            data = \<lparr>data_note = Some (Inherited ''constructor''),
                    data_freq = Some NaN,
                    data_voice = Some (Val 0),
                    data_state = Some (StateString ''on''),
                    data_command = None\<rparr>\<rparr>,
           \<lparr>action = ''settings'', data = no_data\<rparr>]) \<and>
   keyHandler (release ''constructor'') (constructor None None) =
     Inr (constructor None None,
          [\<lparr>action = ''gate'',
            data = \<lparr>data_note = Some (Inherited ''constructor''),
                    data_freq = Some NaN,
                    data_voice = Some (Inherited ''constructor''),
                    data_state = Some (StateString ''off''),
                    data_command = None\<rparr>\<rparr>])"
  by code_simp

text \<open>
  Claim C4 fails on the code. The press of \<^verbatim>\<open>__proto__\<close> in a new interpreter passes
  the guard and increments the counter, and the assignment to \<^verbatim>\<open>heldKeys\<close> stores
  nothing: \<^verbatim>\<open>heldKeys\<close> is empty and the counter is 1, and the next note has voice 1.
\<close>

theorem counter_not_reset:
  "heldKeys (state_of (keyHandler (press ''__proto__'') (constructor None None))) = [] \<and>
   activeVoices (state_of (keyHandler (press ''__proto__'') (constructor None None))) = 1 \<and>
   map (\<lambda>d. data_voice (data d))
     (filter is_note_on
       (emitted (keyHandler (press ''a'')
         (state_of (keyHandler (press ''__proto__'') (constructor None None)))))) = [Some (Val 1)]"
  by code_simp

text \<open>
  Claim C10 fails on the code in its first part. After a press of \<^verbatim>\<open>constructor\<close> in a
  new interpreter, \<^verbatim>\<open>heldKeys\<close> has the key \<^verbatim>\<open>constructor\<close>, which has no entry in the
  note table. (The note that the release block looks up is defined all the same, by
  \<open>reachable_returns\<close>.)
\<close>

theorem held_key_without_note:
  "map_of (heldKeys (state_of (keyHandler (press ''constructor'') (constructor None None))))
     ''constructor'' = Some 0 \<and>
   keyToNoteMap ''constructor'' = None"
  by code_simp

end
